theory Spec2Isabelle
  imports Complex_Main
begin

section \<open>Errors\<close>

text \<open>
  The Go code reports failures as untyped \<open>error\<close> values built with \<open>errors.New\<close> and
  \<open>fmt.Errorf\<close>. Each constructor below stands for one error site of the source; the
  payload is the number the message prints.
\<close>

datatype num_error = ErrSyntax | ErrRange

datatype error =
    InvalidYear
  | InvalidDay
  | WeekendError
  | ReadError
  | NetworkError
  | StatusCodeError int
  | ColumnCountError nat
  | NameTickerError nat
  | AtoiError num_error
  | ParseFloatError num_error

section \<open>Dates\<close>

record Date =
  Year :: int
  Month :: int
  Day :: int

subsection \<open>The fragment of package \<open>time\<close> used by \<open>Validate\<close>\<close>

text \<open>
  \<open>time.Date\<close> normalises the month into the year, then counts the days since the
  absolute epoch (1 January of the year \<open>absoluteZeroYear\<close>); \<open>Weekday\<close> reads the day of
  the week off the absolute second count. Hours, minutes, seconds and nanoseconds are all
  zero at the call site, and the location is UTC, so they are left out. Go computes in
  64-bit integers; the model computes in \<open>int\<close>, which agrees as long as the month
  does not push the year out of the 64-bit range.
\<close>

definition time_norm :: "int \<Rightarrow> int \<Rightarrow> int \<Rightarrow> int \<times> int" where
  "time_norm hi lo base =
     (let (hi1, lo1) =
            (if lo < 0
             then (let n = (- lo - 1) div base + 1 in (hi - n, lo + n * base))
             else (hi, lo))
      in if lo1 \<ge> base
         then (let n = lo1 div base in (hi1 + n, lo1 - n * base))
         else (hi1, lo1))"

definition absoluteZeroYear :: int where
  "absoluteZeroYear = - 292277022399"

definition isLeap :: "int \<Rightarrow> bool" where
  "isLeap year = (year mod 4 = 0 \<and> (year mod 100 \<noteq> 0 \<or> year mod 400 = 0))"

definition daysBefore :: "int list" where
  "daysBefore = [0, 31, 59, 90, 120, 151, 181, 212, 243, 273, 304, 334, 365]"

definition daysSinceEpoch :: "int \<Rightarrow> int" where
  "daysSinceEpoch year =
     (let y = year - absoluteZeroYear;
          n400 = y div 400;
          y1 = y - 400 * n400;
          n100 = y1 div 100;
          y2 = y1 - 100 * n100;
          n4 = y2 div 4;
          y3 = y2 - 4 * n4
      in 146097 * n400 + 36524 * n100 + 1461 * n4 + 365 * y3)"

definition secondsPerDay :: int where
  "secondsPerDay = 86400"

definition time_Date :: "int \<Rightarrow> int \<Rightarrow> int \<Rightarrow> int" where
  \<comment> \<open>the absolute second count of midnight UTC on the normalised day\<close>
  "time_Date year month day =
     (let (year', m) = time_norm year (month - 1) 12;
          month' = m + 1;
          d = daysSinceEpoch year' + daysBefore ! nat (month' - 1)
              + (if isLeap year' \<and> month' \<ge> 3 then 1 else 0)
              + (day - 1)
      in d * secondsPerDay)"

definition Sunday :: int where "Sunday = 0"
definition Monday :: int where "Monday = 1"
definition Friday :: int where "Friday = 5"
definition Saturday :: int where "Saturday = 6"

definition Weekday :: "int \<Rightarrow> int" where
  "Weekday t = ((t + Monday * secondsPerDay) mod (7 * secondsPerDay)) div secondsPerDay"

subsection \<open>\<open>Validate\<close> and \<open>NewDate\<close>\<close>

text \<open>
  \<open>now\<close> is the year \<open>time.Now().Year()\<close> returns when \<open>Validate\<close> runs. \<open>Validate\<close>
  returns \<open>None\<close> for Go's \<open>nil\<close> error.
\<close>

definition Validate :: "int \<Rightarrow> Date \<Rightarrow> error option" where
  "Validate now d =
     (if Year d > now \<or> Year d < 2010 then Some InvalidYear
      else if Day d < 1 \<or> Day d > 31 then Some InvalidDay
      else (let t = time_Date (Year d) (Month d) (Day d)
            in if Weekday t = Saturday \<or> Weekday t = Sunday then Some WeekendError
               else None))"

definition NewDate :: "int \<Rightarrow> int \<Rightarrow> int \<Rightarrow> int \<Rightarrow> Date \<times> error option" where
  "NewDate now year month day =
     (let d = \<lparr>Year = year, Month = month, Day = day\<rparr> in (d, Validate now d))"

subsection \<open>The Gregorian calendar, for reference\<close>

definition days_in_month :: "int \<Rightarrow> int \<Rightarrow> int" where
  "days_in_month y m =
     (if m = 2 then (if isLeap y then 29 else 28)
      else if m = 4 \<or> m = 6 \<or> m = 9 \<or> m = 11 then 30 else 31)"

definition real_date :: "int \<Rightarrow> int \<Rightarrow> int \<Rightarrow> bool" where
  "real_date y m d = (1 \<le> m \<and> m \<le> 12 \<and> 1 \<le> d \<and> d \<le> days_in_month y m)"

definition rata_die :: "int \<Rightarrow> int \<Rightarrow> int \<Rightarrow> int" where
  \<comment> \<open>the number of the day, counting 1 January of year 1 (a Monday) as day 1\<close>
  "rata_die y m d =
     365 * (y - 1) + (y - 1) div 4 - (y - 1) div 100 + (y - 1) div 400
     + (367 * m - 362) div 12
     + (if m \<le> 2 then 0 else if isLeap y then - 1 else - 2)
     + d"

definition gregorian_weekday :: "int \<Rightarrow> int \<Rightarrow> int \<Rightarrow> int" where
  \<comment> \<open>0 is Sunday, 1 Monday, ..., 6 Saturday\<close>
  "gregorian_weekday y m d = rata_die y m d mod 7"

section \<open>Source locators\<close>

text \<open>
  \<open>MoverList\<close> is a Go string type with exactly two declared constants; each constant's
  value is the \<open>fmt\<close> template of its remote page.
\<close>

datatype MoverList = USCompositeGainers | USCompositeLosers

fun template :: "MoverList \<Rightarrow> string" where
  "template USCompositeGainers =
     ''http://www.wsj.com/mdc/public/page/2_3021-gaincomp-gainer-%d%02d%02d.html?mod=mdc_pastcalendar''"
| "template USCompositeLosers =
     ''http://www.wsj.com/mdc/public/page/2_3021-losecomp-loser-%d%02d%02d.html?mod=mdc_pastcalendar''"

subsection \<open>The fragment of \<open>fmt.Sprintf\<close> the templates use\<close>

text \<open>
  Literal characters, \<open>%%\<close>, and the verb \<open>%d\<close> with an optional \<open>0\<close> flag and an
  optional decimal width, applied to \<open>int\<close> operands. With the \<open>0\<close> flag the digits are
  padded with zeros up to the width, one less when a minus sign is printed; without it
  the number is padded with spaces on the left. Any other character after \<open>%\<close> is
  rendered the way \<open>fmt\<close> reports a verb that does not fit an \<open>int\<close>; the two templates
  never get there.
\<close>

definition digit_char :: "nat \<Rightarrow> char" where
  "digit_char n = ''0123456789'' ! (n mod 10)"

fun utoa :: "nat \<Rightarrow> string" where
  "utoa n = (if n < 10 then [digit_char n] else utoa (n div 10) @ [digit_char (n mod 10)])"

declare utoa.simps [simp del]

definition itoa :: "int \<Rightarrow> string" where
  "itoa a = (if a < 0 then CHR ''-'' # utoa (nat (- a)) else utoa (nat a))"

definition fmt_d :: "bool \<Rightarrow> nat option \<Rightarrow> int \<Rightarrow> string" where
  "fmt_d zero width a =
     (let ds = utoa (nat \<bar>a\<bar>);
          sign = (if a < 0 then [CHR ''-''] else [])
      in case width of
           None \<Rightarrow> sign @ ds
         | Some w \<Rightarrow>
             if zero
             then sign @ replicate ((if a < 0 then w - 1 else w) - length ds) CHR ''0'' @ ds
             else replicate (w - length (sign @ ds)) CHR '' '' @ sign @ ds)"

definition is_digit_char :: "char \<Rightarrow> bool" where
  "is_digit_char c = (c \<in> set ''0123456789'')"

definition digit_val :: "char \<Rightarrow> nat" where
  "digit_val c = of_char c - 48"

datatype fmt_state = Lit | Spec bool "nat option"

fun extra_operands :: "int list \<Rightarrow> string" where
  "extra_operands [] = []"
| "extra_operands [a] = ''int='' @ itoa a"
| "extra_operands (a # as) = ''int='' @ itoa a @ '', '' @ extra_operands as"

definition extra_tail :: "int list \<Rightarrow> string" where
  "extra_tail args = (if args = [] then [] else ''%!(EXTRA '' @ extra_operands args @ '')'')"

fun doPrintf :: "fmt_state \<Rightarrow> string \<Rightarrow> int list \<Rightarrow> string" where
  "doPrintf Lit [] args = extra_tail args"
| "doPrintf Lit (c # cs) args =
     (if c = CHR ''%'' then doPrintf (Spec False None) cs args
      else c # doPrintf Lit cs args)"
| "doPrintf (Spec z w) [] args = ''%!(NOVERB)'' @ extra_tail args"
| "doPrintf (Spec z w) (c # cs) args =
     (if c = CHR ''0'' \<and> w = None then doPrintf (Spec True w) cs args
      else if is_digit_char c
      then doPrintf (Spec z (Some (10 * (case w of None \<Rightarrow> 0 | Some n \<Rightarrow> n) + digit_val c))) cs args
      else if c = CHR ''%'' then c # doPrintf Lit cs args
      else (case args of
              [] \<Rightarrow> ''%!'' @ [c] @ ''(MISSING)'' @ doPrintf Lit cs []
            | a # as \<Rightarrow>
                (if c = CHR ''d'' then fmt_d z w a
                 else ''%!'' @ [c] @ ''(int='' @ itoa a @ '')'') @ doPrintf Lit cs as))"

definition Sprintf :: "string \<Rightarrow> int list \<Rightarrow> string" where
  "Sprintf format args = doPrintf Lit format args"

subsection \<open>\<open>dataURL\<close>\<close>

text \<open>
  The Go function returns the pair \<open>(url, err)\<close>; on a validation error the named result
  \<open>url\<close> still holds its zero value, the empty string.
\<close>

definition dataURL :: "int \<Rightarrow> MoverList \<Rightarrow> Date \<Rightarrow> string \<times> error option" where
  "dataURL now list d =
     (case Validate now d of
        Some e \<Rightarrow> ([], Some e)
      | None \<Rightarrow> (Sprintf (template list) [Year d, Month d, Day d], None))"

section \<open>Cell text\<close>

text \<open>
  The text of a document is a sequence of runes (Unicode code points). \<open>str\<close> reads an
  ASCII literal as such a sequence.
\<close>

type_synonym rune = nat
type_synonym runes = "rune list"

definition str :: "string \<Rightarrow> runes" where
  "str s = map of_char s"

subsection \<open>\<open>filterNonNumeric\<close>\<close>

text \<open>
  \<open>unicode.IsNumber\<close> reports the runes of Unicode category N. Up to U+00FF these are the
  ASCII digits, the superscripts 2, 3 and 1 and the three vulgar fractions; beyond that the
  answer comes from the Unicode range tables, which the model takes as the parameter
  \<open>wide\<close>.
\<close>

definition unicode_IsNumber :: "(rune \<Rightarrow> bool) \<Rightarrow> rune \<Rightarrow> bool" where
  "unicode_IsNumber wide r =
     (if r \<le> 255
      then (48 \<le> r \<and> r \<le> 57) \<or> r = 178 \<or> r = 179 \<or> r = 185 \<or> r = 188 \<or> r = 189 \<or> r = 190
      else wide r)"

definition nonNumeric :: "(rune \<Rightarrow> bool) \<Rightarrow> rune \<Rightarrow> bool" where
  \<comment> \<open>the function handed to \<open>transform.RemoveFunc\<close>: 45 is \<open>-\<close>, 46 is \<open>.\<close>\<close>
  "nonNumeric wide r = (if r = 45 \<or> r = 46 then False else \<not> unicode_IsNumber wide r)"

definition filterNonNumeric :: "(rune \<Rightarrow> bool) \<Rightarrow> runes \<Rightarrow> runes" where
  \<comment> \<open>\<open>RemoveFunc f\<close> drops every rune on which \<open>f\<close> is true\<close>
  "filterNonNumeric wide t = filter (\<lambda>r. \<not> nonNumeric wide r) t"

subsection \<open>The fragment of package \<open>strconv\<close> used by \<open>trToStock\<close>\<close>

definition is_digit :: "rune \<Rightarrow> bool" where
  "is_digit r = (48 \<le> r \<and> r \<le> 57)"

fun digits_value :: "nat \<Rightarrow> runes \<Rightarrow> nat" where
  "digits_value acc [] = acc"
| "digits_value acc (r # rs) = digits_value (10 * acc + (r - 48)) rs"

text \<open>
  \<open>Atoi\<close> reads an optional sign (43 is \<open>+\<close>) and at least one ASCII digit, nothing else,
  and reports a range error when the value does not fit Go's \<open>int\<close>, here 64 bits wide.
\<close>

definition Atoi :: "runes \<Rightarrow> error + int" where
  "Atoi s =
     (case s of
        [] \<Rightarrow> Inl (AtoiError ErrSyntax)
      | c # cs \<Rightarrow>
         (let neg = (c = 45);
              ds = (if c = 45 \<or> c = 43 then cs else s)
          in if ds = [] \<or> \<not> list_all is_digit ds then Inl (AtoiError ErrSyntax)
             else (let n = int (digits_value 0 ds);
                       v = (if neg then - n else n)
                   in if v < - (2 ^ 63) \<or> 2 ^ 63 - 1 < v then Inl (AtoiError ErrRange)
                      else Inr v)))"

text \<open>
  \<open>ParseFloat\<close> on the strings that can reach it: \<open>filterNonNumeric\<close> leaves only digits,
  \<open>-\<close>, \<open>.\<close> and non-ASCII number runes, so exponents, hexadecimal floats, underscores,
  \<open>inf\<close> and \<open>nan\<close> cannot occur. What remains of Go's grammar is an optional sign, then
  digits with at most one point among them and at least one digit. The result is the
  decimal value that the text denotes; the Go field holds the \<open>float64\<close> nearest to it
  (rounding to nearest, ties to even, keeps the sign and the order), and a value that would
  round to an infinity is a range error.
\<close>

definition ParseFloat :: "runes \<Rightarrow> error + rat" where
  "ParseFloat s =
     (case s of
        [] \<Rightarrow> Inl (ParseFloatError ErrSyntax)
      | c # cs \<Rightarrow>
         (let neg = (c = 45);
              body = (if c = 45 \<or> c = 43 then cs else s);
              ip = takeWhile is_digit body;
              rest = dropWhile is_digit body;
              fp = (case rest of [] \<Rightarrow> [] | p # ps \<Rightarrow> if p = 46 then takeWhile is_digit ps else []);
              tail = (case rest of [] \<Rightarrow> [] | p # ps \<Rightarrow> if p = 46 then dropWhile is_digit ps else rest)
          in if tail \<noteq> [] \<or> ip @ fp = [] then Inl (ParseFloatError ErrSyntax)
             else (let m = Fract (int (digits_value 0 (ip @ fp))) (10 ^ length fp);
                       v = (if neg then - m else m)
                   in if 2 ^ 1024 - 2 ^ 970 \<le> \<bar>v\<bar> then Inl (ParseFloatError ErrRange)
                      else Inr v)))"

subsection \<open>\<open>nameAndSymbolPattern\<close>\<close>

text \<open>
  The pattern is \<^verbatim>\<open>(.+)\s\((.+)\)\<close>. Go's \<open>regexp\<close> finds the leftmost match and, among
  the matches starting there, the one a backtracking matcher finds first: each \<open>.+\<close> takes
  as many runes as it can. \<open>.\<close> matches every rune except the newline (10), \<open>\s\<close> matches
  tab, newline, form feed, carriage return and space. \<open>group2 pre s\<close> has already read
  \<open>pre\<close> into the second group and tries to extend it into \<open>s\<close> before it accepts a
  closing parenthesis (41); \<open>group1\<close> does the same for the first group, the blank and the
  opening parenthesis (40).
\<close>

definition is_space :: "rune \<Rightarrow> bool" where
  "is_space r = (r = 9 \<or> r = 10 \<or> r = 12 \<or> r = 13 \<or> r = 32)"

fun group2 :: "runes \<Rightarrow> runes \<Rightarrow> runes option" where
  "group2 pre [] = None"
| "group2 pre (c # cs) =
     (case (if c \<noteq> 10 then group2 (pre @ [c]) cs else None) of
        Some t \<Rightarrow> Some t
      | None \<Rightarrow> if c = 41 \<and> pre \<noteq> [] then Some pre else None)"

fun group1 :: "runes \<Rightarrow> runes \<Rightarrow> (runes \<times> rune \<times> runes) option" where
  "group1 pre [] = None"
| "group1 pre (c # cs) =
     (case (if c \<noteq> 10 then group1 (pre @ [c]) cs else None) of
        Some m \<Rightarrow> Some m
      | None \<Rightarrow>
         (if is_space c \<and> pre \<noteq> []
          then (case cs of
                  [] \<Rightarrow> None
                | p # rest \<Rightarrow>
                    if p = 40
                    then (case group2 [] rest of None \<Rightarrow> None | Some t \<Rightarrow> Some (pre, c, t))
                    else None)
          else None))"

fun FindStringSubmatch :: "runes \<Rightarrow> runes list" where
  "FindStringSubmatch [] = []"
| "FindStringSubmatch (c # cs) =
     (case group1 [] (c # cs) of
        Some (n, b, t) \<Rightarrow> [n @ [b, 40] @ t @ [41], n, t]
      | None \<Rightarrow> FindStringSubmatch cs)"

section \<open>Documents\<close>

text \<open>
  \<open>goquery.NewDocumentFromReader\<close> hands the reader to the HTML parser, which fails only
  when reading fails and otherwise builds a tree for any input. The model starts from that
  tree: an element has a tag, attributes and children; text nodes carry runes.
\<close>

datatype node =
    Element string "(string \<times> string) list" "node list"
  | TextNode runes
  | CommentNode

datatype reader = FailingReader | Reader "node list"

subsection \<open>The fragment of the selector language used by \<open>parseTable\<close> and \<open>trToStock\<close>\<close>

text \<open>
  A selector is a chain of compound selectors joined by the descendant combinator. A
  compound selector names a tag and possibly a class; an element has a class when one of
  the blank-separated words of a \<open>class\<close> attribute is that class.
\<close>

datatype simple_sel = TagSel string | TagClassSel string string

datatype selector = Selector simple_sel "simple_sel list"
  \<comment> \<open>the last compound selector, then the ones before it, innermost first\<close>

fun split_ws :: "string \<Rightarrow> string \<Rightarrow> string list" where
  "split_ws cur [] = (if cur = [] then [] else [cur])"
| "split_ws cur (c # cs) =
     (if c \<in> set [CHR '' '', CHR 0x09, CHR 0x0D, CHR 0x0A, CHR 0x0C]
      then (if cur = [] then split_ws [] cs else cur # split_ws [] cs)
      else split_ws (cur @ [c]) cs)"

definition has_class :: "string \<Rightarrow> (string \<times> string) list \<Rightarrow> bool" where
  "has_class c as = list_ex (\<lambda>(k, v). k = ''class'' \<and> c \<in> set (split_ws [] v)) as"

fun matches_simple :: "simple_sel \<Rightarrow> string \<Rightarrow> (string \<times> string) list \<Rightarrow> bool" where
  "matches_simple (TagSel t) tag as = (tag = t)"
| "matches_simple (TagClassSel t c) tag as = (tag = t \<and> has_class c as)"

fun under :: "simple_sel list \<Rightarrow> (string \<times> (string \<times> string) list) list \<Rightarrow> bool" where
  "under [] ancs = True"
| "under (s # ss) [] = False"
| "under (s # ss) ((t, as) # ancs) =
     ((matches_simple s t as \<and> under ss ancs) \<or> under (s # ss) ancs)"

fun MatchAll :: "selector \<Rightarrow> (string \<times> (string \<times> string) list) list \<Rightarrow> node \<Rightarrow> node list" where
  "MatchAll (Selector s ss) ancs (Element t as cs) =
     (if matches_simple s t as \<and> under ss ancs then [Element t as cs] else [])
     @ concat (map (MatchAll (Selector s ss) ((t, as) # ancs)) cs)"
| "MatchAll sel ancs (TextNode v) = []"
| "MatchAll sel ancs CommentNode = []"

definition Find :: "selector \<Rightarrow> (string \<times> (string \<times> string) list) list \<Rightarrow> node list \<Rightarrow> node list" where
  \<comment> \<open>the matches among the given children and below them, in document order\<close>
  "Find sel ancs cs = concat (map (MatchAll sel ancs) cs)"

definition rows_selector :: selector where
  \<comment> \<open>\<^verbatim>\<open>table.mdcTable tbody tr\<close>\<close>
  "rows_selector = Selector (TagSel ''tr'') [TagSel ''tbody'', TagClassSel ''table'' ''mdcTable'']"

definition td_selector :: selector where
  "td_selector = Selector (TagSel ''td'') []"

fun Text :: "node \<Rightarrow> runes" where
  "Text (TextNode v) = v"
| "Text (Element t as cs) = concat (map Text cs)"
| "Text CommentNode = []"

section \<open>Parsing the table\<close>

record Stock =
  Ticker :: runes
  Name :: runes
  Price :: rat
  PctChange :: rat
  Volume :: int

definition cells :: "node \<Rightarrow> node list" where
  \<comment> \<open>\<open>sel.Find("td")\<close> on a one-node selection\<close>
  "cells n = (case n of Element t as cs \<Rightarrow> Find td_selector [(t, as)] cs | _ \<Rightarrow> [])"

definition cell_data :: "(rune \<Rightarrow> bool) \<Rightarrow> node \<Rightarrow> runes list" where
  "cell_data wide n =
     map (\<lambda>(i, c). if i = 1 then Text c else filterNonNumeric wide (Text c))
         (enumerate 0 (cells n))"

definition trToStock :: "(rune \<Rightarrow> bool) \<Rightarrow> node \<Rightarrow> error + Stock" where
  "trToStock wide sel =
     (let data = cell_data wide sel
      in if length data \<noteq> 6 then Inl (ColumnCountError (length data))
         else (let matches = FindStringSubmatch (data ! 1)
               in if length matches \<noteq> 3 then Inl (NameTickerError (length matches))
                  else (case Atoi (data ! 5) of
                          Inl e \<Rightarrow> Inl e
                        | Inr v \<Rightarrow>
                           (case ParseFloat (data ! 2) of
                              Inl e \<Rightarrow> Inl e
                            | Inr p \<Rightarrow>
                               (case ParseFloat (data ! 4) of
                                  Inl e \<Rightarrow> Inl e
                                | Inr pc \<Rightarrow>
                                    Inr \<lparr>Ticker = matches ! 2, Name = matches ! 1,
                                         Price = p, PctChange = pc, Volume = v\<rparr>)))))"

text \<open>
  \<open>EachWithBreak\<close> calls the closure on each row in turn and stops at the first \<open>false\<close>. The
  closure appends to the named result \<open>results\<close> and assigns the named result \<open>err\<close>;
  \<open>parseTable\<close> returns both as they stand when the loop ends.
\<close>

fun each_row :: "(rune \<Rightarrow> bool) \<Rightarrow> node list \<Rightarrow> Stock list \<Rightarrow> Stock list \<times> error option" where
  "each_row wide [] results = (results, None)"
| "each_row wide (sel # sels) results =
     (case trToStock wide sel of
        Inl e \<Rightarrow> (results, Some e)
      | Inr s \<Rightarrow> each_row wide sels (results @ [s]))"

text \<open>
  \<open>Slice(1, goquery.ToEnd)\<close> evaluates the Go slice expression \<open>s.Nodes[1:len(s.Nodes)]\<close>,
  which panics when the selection is empty.
\<close>

datatype 'a outcome = Panic | Return 'a

definition parseTable :: "(rune \<Rightarrow> bool) \<Rightarrow> reader \<Rightarrow> (Stock list \<times> error option) outcome" where
  "parseTable wide data =
     (case data of
        FailingReader \<Rightarrow> Return ([], Some ReadError)
      | Reader doc \<Rightarrow>
         (let rows = Find rows_selector [] doc
          in if length rows < 1 then Panic
             else Return (each_row wide (drop 1 rows) [])))"

section \<open>The cache\<close>

text \<open>
  The cache maps a URL to its entry's \<open>data\<close>. \<open>netClient.Get\<close> answers a URL with a
  transport error (\<open>None\<close>) or with a status code and a body. \<open>Get\<close> returns what the call
  returns, the cache afterwards, and the URLs it requested from the network. The two
  mutexes do not change what a single call computes; they are modelled further down.
\<close>

type_synonym cache = "string \<rightharpoonup> Stock list"

datatype response = Response int reader

definition NewGetter :: cache where
  "NewGetter = Map.empty"

definition Get ::
  "(rune \<Rightarrow> bool) \<Rightarrow> int \<Rightarrow> (string \<Rightarrow> response option) \<Rightarrow> cache \<Rightarrow> MoverList \<Rightarrow> Date
   \<Rightarrow> (Stock list \<times> error option) outcome \<times> cache \<times> string list" where
  "Get wide now netClient c list d =
     (case dataURL now list d of
        (addr, Some e) \<Rightarrow> (Return ([], Some e), c, [])
      | (addr, None) \<Rightarrow>
         (let c' = (case c addr of None \<Rightarrow> c(addr \<mapsto> []) | Some v \<Rightarrow> c);
              val = (case c addr of None \<Rightarrow> [] | Some v \<Rightarrow> v)
          in if length val > 0 then (Return (val, None), c', [])
             else (case netClient addr of
                     None \<Rightarrow> (Return ([], Some NetworkError), c', [addr])
                   | Some (Response code body) \<Rightarrow>
                      if code \<noteq> 200 then (Return ([], Some (StatusCodeError code)), c', [addr])
                      else (parseTable wide body, c', [addr]))))"

subsection \<open>The two mutexes\<close>

text \<open>
  Several goroutines run \<open>Get\<close> at once. Each is at one of the points below; a step is
  what one goroutine does between two of them. \<open>c.Lock()\<close> and \<open>val.Lock()\<close> can be taken
  only while nobody holds the mutex; a goroutine waiting for one has no step. The
  deferred \<open>val.Unlock()\<close> runs when \<open>Get\<close> returns. The rule \<open>finish\<close> covers every way
  the request and the parse can end: none of them assigns \<open>val.data\<close>.
\<close>

datatype point =
    Start                \<comment> \<open>before \<open>c.Lock()\<close>\<close>
  | HoldMap              \<comment> \<open>holds \<open>c\<close>, about to call \<open>dataURL\<close>\<close>
  | WaitEntry string     \<comment> \<open>holds \<open>c\<close>, at \<open>val.Lock()\<close>\<close>
  | HoldBoth string      \<comment> \<open>holds \<open>c\<close> and \<open>val\<close>, at \<open>c.Unlock()\<close>\<close>
  | Check string         \<comment> \<open>holds \<open>val\<close>, at \<open>len(val.data) > 0\<close>\<close>
  | Fetching string      \<comment> \<open>holds \<open>val\<close>, inside \<open>netClient.Get\<close>\<close>
  | Done

record shared =
  map_lock :: "nat option"
  entry_lock :: "string \<Rightarrow> nat option"
  entries :: cache
  pc :: "nat \<Rightarrow> point"
  requested :: "string list"

inductive step :: "int \<Rightarrow> (nat \<Rightarrow> MoverList \<times> Date) \<Rightarrow> shared \<Rightarrow> nat \<Rightarrow> shared \<Rightarrow> bool"
  for now :: int and req :: "nat \<Rightarrow> MoverList \<times> Date" where
  lock_map:
    "pc s t = Start \<Longrightarrow> map_lock s = None \<Longrightarrow>
     step now req s t (s\<lparr>map_lock := Some t, pc := (pc s)(t := HoldMap)\<rparr>)"
| invalid:
    "pc s t = HoldMap \<Longrightarrow> dataURL now (fst (req t)) (snd (req t)) = (addr, Some e) \<Longrightarrow>
     step now req s t (s\<lparr>map_lock := None, pc := (pc s)(t := Done)\<rparr>)"
| lookup:
    "pc s t = HoldMap \<Longrightarrow> dataURL now (fst (req t)) (snd (req t)) = (addr, None) \<Longrightarrow>
     step now req s t
       (s\<lparr>entries := (case entries s addr of None \<Rightarrow> (entries s)(addr \<mapsto> []) | Some v \<Rightarrow> entries s),
          pc := (pc s)(t := WaitEntry addr)\<rparr>)"
| lock_entry:
    "pc s t = WaitEntry addr \<Longrightarrow> entry_lock s addr = None \<Longrightarrow>
     step now req s t
       (s\<lparr>entry_lock := (entry_lock s)(addr := Some t), pc := (pc s)(t := HoldBoth addr)\<rparr>)"
| unlock_map:
    "pc s t = HoldBoth addr \<Longrightarrow>
     step now req s t (s\<lparr>map_lock := None, pc := (pc s)(t := Check addr)\<rparr>)"
| hit:
    "pc s t = Check addr \<Longrightarrow> entries s addr = Some v \<Longrightarrow> length v > 0 \<Longrightarrow>
     step now req s t
       (s\<lparr>entry_lock := (entry_lock s)(addr := None), pc := (pc s)(t := Done)\<rparr>)"
| miss:
    "pc s t = Check addr \<Longrightarrow> entries s addr = Some v \<Longrightarrow> \<not> length v > 0 \<Longrightarrow>
     step now req s t
       (s\<lparr>requested := requested s @ [addr], pc := (pc s)(t := Fetching addr)\<rparr>)"
| finish:
    "pc s t = Fetching addr \<Longrightarrow>
     step now req s t
       (s\<lparr>entry_lock := (entry_lock s)(addr := None), pc := (pc s)(t := Done)\<rparr>)"

inductive run :: "int \<Rightarrow> (nat \<Rightarrow> MoverList \<times> Date) \<Rightarrow> shared \<Rightarrow> nat list \<Rightarrow> shared \<Rightarrow> bool"
  for now :: int and req :: "nat \<Rightarrow> MoverList \<times> Date" where
  run_nil: "run now req s [] s"
| run_step: "step now req s t s' \<Longrightarrow> run now req s' ts s'' \<Longrightarrow> run now req s (t # ts) s''"

definition initial :: shared where
  \<comment> \<open>a fresh \<open>NewGetter\<close> cache, every goroutine about to call \<open>Get\<close>\<close>
  "initial = \<lparr>map_lock = None, entry_lock = (\<lambda>a. None), entries = NewGetter,
              pc = (\<lambda>t. Start), requested = []\<rparr>"

section \<open>The rendering the specification asks of a locator\<close>

definition decimal :: "nat \<Rightarrow> int \<Rightarrow> string" where
  \<comment> \<open>the last \<open>k\<close> decimal digits of \<open>n\<close>, leading zeros included\<close>
  "decimal k n = map (\<lambda>i. digit_char (nat n div 10 ^ i mod 10)) (rev [0..<k])"

fun located :: "MoverList \<Rightarrow> string \<Rightarrow> string \<Rightarrow> string \<Rightarrow> string" where
  "located USCompositeGainers yyyy mm dd =
     ''http://www.wsj.com/mdc/public/page/2_3021-gaincomp-gainer-'' @ yyyy @ mm @ dd
     @ ''.html?mod=mdc_pastcalendar''"
| "located USCompositeLosers yyyy mm dd =
     ''http://www.wsj.com/mdc/public/page/2_3021-losecomp-loser-'' @ yyyy @ mm @ dd
     @ ''.html?mod=mdc_pastcalendar''"

section \<open>Sample inputs\<close>

text \<open>
  The samples are ASCII, so a range table without entries serves for them.
\<close>

definition no_wide_numbers :: "rune \<Rightarrow> bool" where
  "no_wide_numbers r = False"

definition td :: "string \<Rightarrow> node" where
  "td s = Element ''td'' [] [TextNode (str s)]"

definition tr :: "string list \<Rightarrow> node" where
  "tr cs = Element ''tr'' [] (map td cs)"

definition header_row :: node where
  "header_row = Element ''tr'' [] [Element ''th'' [] [TextNode (str ''Issue'')]]"

definition page :: "node list \<Rightarrow> node list" where
  "page rows =
     [Element ''html'' []
        [Element ''head'' [] [],
         Element ''body'' []
           [Element ''table'' [(''class'', ''mdcTable'')] [Element ''tbody'' [] rows]]]]"

definition bare_page :: "node list" where
  \<comment> \<open>a document without the table\<close>
  "bare_page =
     [Element ''html'' []
        [Element ''head'' [] [],
         Element ''body'' [] [Element ''p'' [] [TextNode (str ''Not Found'')]]]]"

definition acme_cells :: "string list" where
  "acme_cells = [''1'', ''Acme Corp (ACME)'', ''$12.34'', ''x'', ''+5.67%'', ''1,234'']"

definition acme :: Stock where
  "acme = \<lparr>Ticker = str ''ACME'', Name = str ''Acme Corp'',
           Price = 1234 / 100, PctChange = 567 / 100, Volume = 1234\<rparr>"

definition wsj :: "string \<Rightarrow> response option" where
  \<comment> \<open>a server that answers every request with status 200 and the Acme page\<close>
  "wsj addr = Some (Response 200 (Reader (page [header_row, tr acme_cells])))"

definition monday :: Date where
  "monday = \<lparr>Year = 2021, Month = 3, Day = 15\<rparr>"

definition saturday :: Date where
  "saturday = \<lparr>Year = 2021, Month = 3, Day = 13\<rparr>"

definition gainers_monday :: string where
  "gainers_monday =
     ''http://www.wsj.com/mdc/public/page/2_3021-gaincomp-gainer-20210315.html?mod=mdc_pastcalendar''"

definition losers_monday :: string where
  "losers_monday =
     ''http://www.wsj.com/mdc/public/page/2_3021-losecomp-loser-20210315.html?mod=mdc_pastcalendar''"

definition three_callers :: "nat \<Rightarrow> MoverList \<times> Date" where
  \<comment> \<open>goroutines 0 and 1 ask for the gainers of one day, every other one for the losers\<close>
  "three_callers t = (if t \<le> 1 then (USCompositeGainers, monday) else (USCompositeLosers, monday))"

section \<open>Validation of dates\<close>

subsection \<open>Go's day count against the calendar\<close>

lemma time_norm_id: "0 \<le> lo \<Longrightarrow> lo < base \<Longrightarrow> time_norm hi lo base = (hi, lo)"
  by (simp add: time_norm_def)

lemma daysBefore_month:
  "1 \<le> m \<Longrightarrow> m \<le> 12 \<Longrightarrow>
   daysBefore ! nat (m - 1) + (if isLeap y \<and> m \<ge> 3 then 1 else 0) =
   (367 * m - 362) div 12 + (if m \<le> 2 then 0 else if isLeap y then - 1 else - 2)"
proof -
  assume "1 \<le> m" "m \<le> 12"
  then have "m = 1 \<or> m = 2 \<or> m = 3 \<or> m = 4 \<or> m = 5 \<or> m = 6 \<or> m = 7 \<or> m = 8 \<or> m = 9
      \<or> m = 10 \<or> m = 11 \<or> m = 12" by arith
  then show ?thesis
    by (elim disjE) (simp_all add: daysBefore_def)
qed

lemma Weekday_days: "Weekday (d * secondsPerDay) = (d + 1) mod 7"
proof -
  have "d * 86400 + 86400 = (d + 1) * 86400" by (simp add: algebra_simps)
  moreover have "(7::int) * 86400 = 7 * 86400" by simp
  ultimately have "(d * 86400 + 1 * 86400) mod (7 * 86400) = ((d + 1) mod 7) * 86400"
    using mult_mod_left [of "d + 1" 7 86400] by simp
  then show ?thesis
    by (simp add: Weekday_def secondsPerDay_def Monday_def)
qed

lemma daysSinceEpoch_closed:
  "daysSinceEpoch y =
     365 * (y - 1) + (y - 1) div 4 - (y - 1) div 100 + (y - 1) div 400 + 146097 * 730692556"
proof -
  define Y where "Y = y - 1"
  define a where "a = Y div 400"
  define r where "r = Y mod 400"
  define b where "b = r div 100"
  define s where "s = r mod 100"
  define c where "c = s div 4"
  define e where "e = s mod 4"
  have Y: "Y = 400 * a + r" by (simp add: a_def r_def)
  have r: "r = 100 * b + s" by (simp add: b_def s_def)
  have s: "s = 4 * c + e" by (simp add: c_def e_def)
  have rb: "0 \<le> r" "r < 400" by (simp_all add: r_def)
  have sb: "0 \<le> s" "s < 100" by (simp_all add: s_def)
  have eb: "0 \<le> e" "e < 4" by (simp_all add: e_def)
  have y0: "y - absoluteZeroYear = 400 * (a + 730692556) + r"
    using Y by (simp add: absoluteZeroYear_def Y_def)
  have d400: "(y - absoluteZeroYear) div 400 = a + 730692556"
    unfolding y0 using rb by simp
  have y1: "y - absoluteZeroYear - 400 * (a + 730692556) = r" using y0 by simp
  have go: "daysSinceEpoch y = 146097 * (a + 730692556) + 36524 * b + 1461 * c + 365 * e"
    unfolding daysSinceEpoch_def Let_def d400 y1
    by (simp add: b_def c_def e_def s_def minus_mult_div_eq_mod)
  have Y4: "Y div 4 = 100 * a + 25 * b + c"
    unfolding Y r s using eb by simp
  have Y100: "Y div 100 = 4 * a + b"
    unfolding Y r using sb by simp
  have Y400: "Y div 400 = a" by (simp add: a_def)
  show ?thesis
    unfolding go using Y4 Y100 Y400 Y r s by (simp add: Y_def [symmetric])
qed

lemma Weekday_time_Date:
  assumes "real_date y m d"
  shows "Weekday (time_Date y m d) = gregorian_weekday y m d"
proof -
  from assms have m: "1 \<le> m" "m \<le> 12" by (simp_all add: real_date_def)
  then have n: "time_norm y (m - 1) 12 = (y, m - 1)" by (simp add: time_norm_id)
  have "time_Date y m d =
          (daysSinceEpoch y
           + (daysBefore ! nat (m - 1) + (if isLeap y \<and> m \<ge> 3 then 1 else 0))
           + (d - 1)) * secondsPerDay"
    by (simp add: time_Date_def n)
  also have "\<dots> = (rata_die y m d - 1 + 146097 * 730692556) * secondsPerDay"
    unfolding daysBefore_month [OF m, of y] daysSinceEpoch_closed rata_die_def
    by simp
  finally have "time_Date y m d = (rata_die y m d - 1 + 146097 * 730692556) * secondsPerDay" .
  then have "Weekday (time_Date y m d) = (rata_die y m d + 7 * (20871 * 730692556)) mod 7"
    by (simp add: Weekday_days add.commute)
  also have "\<dots> = rata_die y m d mod 7"
    by (rule mod_mult_self2)
  finally show ?thesis
    by (simp add: gregorian_weekday_def)
qed

lemma days_in_month_le: "days_in_month y m \<le> 31"
  by (simp add: days_in_month_def)

lemma gregorian_weekday_range: "0 \<le> gregorian_weekday y m d \<and> gregorian_weekday y m d < 7"
  by (simp add: gregorian_weekday_def)

lemma gregorian_weekday_samples:
  "gregorian_weekday 2021 3 15 = 1" "gregorian_weekday 2021 3 13 = 6"
  by (simp_all add: gregorian_weekday_def rata_die_def isLeap_def)

subsection \<open>Real dates\<close>

text \<open>
  C8. For a real Gregorian date whose year lies between 2010 and the current year,
  \<open>NewDate\<close> returns the date with the very components it was given, together with no
  error when the date falls on Monday to Friday and with the weekend error otherwise;
  and otherwise means Saturday or Sunday. The weekday is the calendar's, counted from
  1 January of year 1.
\<close>

theorem NewDate_real_date:
  assumes "real_date y m d" and "2010 \<le> y" and "y \<le> now"
  shows "NewDate now y m d =
           (\<lparr>Year = y, Month = m, Day = d\<rparr>,
            if Monday \<le> gregorian_weekday y m d \<and> gregorian_weekday y m d \<le> Friday
            then None else Some WeekendError)
         \<and> ((Monday \<le> gregorian_weekday y m d \<and> gregorian_weekday y m d \<le> Friday)
              \<noteq> (gregorian_weekday y m d = Saturday \<or> gregorian_weekday y m d = Sunday))"
proof -
  let ?w = "gregorian_weekday y m d"
  from assms(1) have day: "1 \<le> d" "d \<le> 31"
    using days_in_month_le [of y m] by (simp_all add: real_date_def)
  have w: "Weekday (time_Date y m d) = ?w"
    by (rule Weekday_time_Date [OF assms(1)])
  have range: "0 \<le> ?w" "?w < 7"
    using gregorian_weekday_range [of y m d] by simp_all
  have split: "(Monday \<le> ?w \<and> ?w \<le> Friday) \<noteq> (?w = Saturday \<or> ?w = Sunday)"
    using range by (auto simp add: Monday_def Friday_def Saturday_def Sunday_def)
  have "Validate now \<lparr>Year = y, Month = m, Day = d\<rparr> =
          (if Monday \<le> ?w \<and> ?w \<le> Friday then None else Some WeekendError)"
    using assms(2,3) day split by (auto simp add: Validate_def w)
  then show ?thesis
    using split by (simp add: NewDate_def)
qed

theorem NewDate_real_date_witness:
  "real_date 2021 3 15 \<and> (2010::int) \<le> 2021 \<and> (2021::int) \<le> 2026
   \<and> NewDate 2026 2021 3 15 = (\<lparr>Year = 2021, Month = 3, Day = 15\<rparr>, None)
   \<and> real_date 2021 3 13
   \<and> NewDate 2026 2021 3 13 = (\<lparr>Year = 2021, Month = 3, Day = 13\<rparr>, Some WeekendError)"
proof -
  have a: "real_date 2021 3 15" and b: "real_date 2021 3 13"
    by (simp_all add: real_date_def days_in_month_def)
  show ?thesis
    using NewDate_real_date [OF a, of 2026] NewDate_real_date [OF b, of 2026] a b
    by (simp add: gregorian_weekday_samples Monday_def Friday_def)
qed

subsection \<open>Dates that do not exist\<close>

text \<open>
  C3. The claim is that a triple which is not a calendar date, such as 30 February 2021,
  is rejected. \<open>Validate\<close> never compares the normalised date with its input: it asks
  \<open>time.Date\<close> for the weekday of 2 March 2021, a Tuesday, and accepts.
\<close>

theorem Validate_accepts_30_February:
  "\<not> real_date 2021 2 30
   \<and> Validate 2021 \<lparr>Year = 2021, Month = 2, Day = 30\<rparr> = None
   \<and> NewDate 2021 2021 2 30 = (\<lparr>Year = 2021, Month = 2, Day = 30\<rparr>, None)"
  by (simp add: real_date_def days_in_month_def isLeap_def NewDate_def Validate_def
      time_Date_def time_norm_def daysSinceEpoch_def absoluteZeroYear_def daysBefore_def
      Weekday_def secondsPerDay_def Monday_def Saturday_def Sunday_def)

end
